theory Spec2Isabelle
  imports Complex_Main "HOL-Library.Word"
begin

section \<open>Python strings\<close>

text \<open>
  A Python \<open>str\<close> is a sequence of Unicode code points.  Two types are used.
  \<^item> \<open>string\<close> (a list of 8-bit \<open>char\<close>) holds text whose code points lie in
    \<open>0..255\<close> (Latin-1).  Every profile field that the fallback synthesis
    lower-cases, trims or splits has this type, and \<open>lower\<close>, \<open>strip\<close>,
    \<open>splitlines\<close> and \<open>split\<close> below are Python's functions on that range.
  \<^item> \<open>ustr\<close> (a list of code points) holds text that is only passed on: the resume
    body handed to the renderer, the remote completion, the text the PDF library returns.
\<close>

type_synonym ustr = "nat list"

type_synonym bytes = "8 word list"

definition ustr_of :: "string \<Rightarrow> ustr" where
  "ustr_of s = map of_char s"

text \<open>
  \<open>str.isspace\<close> for one code point, the white space that \<open>strip\<close> removes:
  U+0009..U+000D, U+001C..U+0020, U+0085, U+00A0, U+1680, U+2000..U+200A, U+2028, U+2029,
  U+202F, U+205F and U+3000.
\<close>

definition uspace :: "nat \<Rightarrow> bool" where
  "uspace n =
     ((9 \<le> n \<and> n \<le> 13) \<or> (28 \<le> n \<and> n \<le> 32) \<or> n = 133 \<or> n = 160 \<or> n = 5760
      \<or> (8192 \<le> n \<and> n \<le> 8202) \<or> n = 8232 \<or> n = 8233 \<or> n = 8239 \<or> n = 8287
      \<or> n = 12288)"

definition isspace :: "char \<Rightarrow> bool" where
  "isspace c = uspace (of_char c)"

text \<open>\<open>s.strip()\<close>: leading and trailing white space removed.\<close>

definition strip :: "string \<Rightarrow> string" where
  "strip s = rev (dropWhile isspace (rev (dropWhile isspace s)))"

definition ustrip :: "ustr \<Rightarrow> ustr" where
  "ustrip s = rev (dropWhile uspace (rev (dropWhile uspace s)))"

text \<open>
  \<open>s.lower()\<close>: A-Z and the Latin-1 capitals U+00C0..U+00DE (the multiplication sign
  U+00D7 apart) move up by 32; every other character below U+0100 is unchanged.
\<close>

definition lower_char :: "char \<Rightarrow> char" where
  "lower_char c =
     (let n = (of_char c :: nat)
      in if (65 \<le> n \<and> n \<le> 90) \<or> (192 \<le> n \<and> n \<le> 222 \<and> n \<noteq> 215)
         then char_of (n + 32) else c)"

definition lower :: "string \<Rightarrow> string" where
  "lower s = map lower_char s"

text \<open>
  \<open>s.splitlines()\<close>: the line boundaries below U+0100 are LF, VT, FF, CR, FS, GS, RS
  and NEL; CR LF is one boundary; the boundaries are not kept; a boundary at the very end
  opens no further line, so the empty string has no line at all.
\<close>

definition is_linebreak :: "char \<Rightarrow> bool" where
  "is_linebreak c = (of_char c \<in> {10, 11, 12, 13, 28, 29, 30, 133 :: nat})"

fun splitlines_from :: "string \<Rightarrow> string \<Rightarrow> string list" where
  "splitlines_from cur [] = (if cur = [] then [] else [cur])"
| "splitlines_from cur (c # cs) =
     (if is_linebreak c then
        (case cs of
           d # ds \<Rightarrow>
             if c = CHR 0x0D \<and> d = CHR 0x0A then cur # splitlines_from [] ds
             else cur # splitlines_from [] cs
         | [] \<Rightarrow> cur # splitlines_from [] cs)
      else splitlines_from (cur @ [c]) cs)"

definition splitlines :: "string \<Rightarrow> string list" where
  "splitlines s = splitlines_from [] s"

text \<open>\<open>s.split(sep)\<close> for a one-character separator: never empty, \<open>"".split(',') = ['']\<close>.\<close>

fun split_from :: "char \<Rightarrow> string \<Rightarrow> string \<Rightarrow> string list" where
  "split_from sep cur [] = [cur]"
| "split_from sep cur (c # cs) =
     (if c = sep then cur # split_from sep [] cs else split_from sep (cur @ [c]) cs)"

definition split :: "char \<Rightarrow> string \<Rightarrow> string list" where
  "split sep s = split_from sep [] s"

text \<open>\<open>sep.join(xs)\<close>.\<close>

fun join :: "'a list \<Rightarrow> 'a list list \<Rightarrow> 'a list" where
  "join sep [] = []"
| "join sep [x] = x"
| "join sep (x # y # ys) = x @ sep @ join sep (y # ys)"

section \<open>The candidate profile\<close>

text \<open>
  The profile is the dictionary \<open>data\<close>.  A field is \<open>None\<close> when its key is absent
  from the dictionary; a present value has the type it has in the dictionary built at
  lines 313-326: a string, or a list of strings for \<open>skills_list\<close> and
  \<open>certifications\<close>.
\<close>

record profile =
  name :: "string option"
  city :: "string option"
  phone :: "string option"
  email :: "string option"
  trade :: "string option"
  years_experience :: "string option"
  education :: "string option"
  skills_text :: "string option"
  skills_list :: "string list option"
  certifications :: "string list option"
  experience_text :: "string option"
  special_notes :: "string option"

text \<open>
  \<open>data.get(k, d)\<close>, and \<open>data.get(k) or d\<close>, which also replaces an empty
  value by \<open>d\<close>.
\<close>

definition get_default :: "'a option \<Rightarrow> 'a \<Rightarrow> 'a" where
  "get_default v d = (case v of None \<Rightarrow> d | Some a \<Rightarrow> a)"

definition get_or :: "'a list option \<Rightarrow> 'a list \<Rightarrow> 'a list" where
  "get_or v d = (case v of None \<Rightarrow> d | Some a \<Rightarrow> if a = [] then d else a)"

text \<open>The truth value of \<open>data.get(k)\<close>: a present, non-empty string or list.\<close>

definition truthy :: "'a list option \<Rightarrow> bool" where
  "truthy v = (case v of None \<Rightarrow> False | Some a \<Rightarrow> a \<noteq> [])"

section \<open>Fallback synthesis: \<open>build_fallback_resume_text\<close>\<close>

text \<open>Lines 169-174: the local variable \<open>summary\<close>.\<close>

definition fallback_summary :: "profile \<Rightarrow> string" where
  "fallback_summary data =
     (let trade' = get_default (trade data) '''';
          years = get_default (years_experience data) '''';
          summary = ''Reliable '' @ trade' @ '' with '' @ years
                    @ '' years of experience in '' @ lower trade' @ '' work. '';
          summary = (if truthy (special_notes data)
                     then summary @ get_default (special_notes data) '''' @ '' ''
                     else summary)
      in summary @ ''Known for strong work ethic, safety-first approach, and consistent on-time completion of projects.'')"

text \<open>Lines 176-182: the local variable \<open>exp_lines\<close>.\<close>

definition fallback_exp_lines :: "profile \<Rightarrow> string list" where
  "fallback_exp_lines data =
     (let trade' = get_default (trade data) '''';
          exp_lines = [strip l. l \<leftarrow> splitlines (get_default (experience_text data) ''''),
                                strip l \<noteq> []]
      in if exp_lines = [] then
           [''Performed '' @ lower trade' @ '' tasks including installation, maintenance, and repairs.'',
            ''Followed safety protocols and maintained jobsite cleanliness.'',
            ''Collaborated with teams to complete projects on schedule.'']
         else exp_lines)"

text \<open>
  Line 184: the skills list the profile resolves to, the given \<open>skills_list\<close> when it
  is non-empty and otherwise the trimmed non-empty tokens of \<open>skills_text\<close>.
\<close>

definition resolved_skills :: "profile \<Rightarrow> string list" where
  "resolved_skills data =
     (if truthy (skills_list data) then get_default (skills_list data) []
      else [strip s. s \<leftarrow> split CHR '','' (get_or (skills_text data) ''''), strip s \<noteq> []])"

text \<open>Lines 184-186: the local variable \<open>skills\<close>.\<close>

definition fallback_skills :: "profile \<Rightarrow> string list" where
  "fallback_skills data =
     (let trade' = get_default (trade data) '''';
          skills = resolved_skills data
      in if skills = [] then
           [trade' @ '' installation'', ''Equipment maintenance'', ''Safety compliance'']
         else skills)"

text \<open>Lines 188-189: the local variables \<open>certs\<close> and \<open>certs_text\<close>.\<close>

definition resolved_certs :: "profile \<Rightarrow> string list" where
  "resolved_certs data = get_or (certifications data) []"

definition fallback_certs_text :: "profile \<Rightarrow> string" where
  "fallback_certs_text data =
     (let certs = resolved_certs data
      in if certs \<noteq> [] then join '', '' certs else ''N/A'')"

text \<open>Lines 191-197: the list \<open>parts\<close>, one element per section.\<close>

definition bullet :: "string \<Rightarrow> string" where
  "bullet e = ''- '' @ e"

definition fallback_parts :: "profile \<Rightarrow> string list" where
  "fallback_parts data =
     (let parts = [];
          parts = parts @ [''PROFESSIONAL SUMMARY\<newline>'' @ fallback_summary data @ ''\<newline>''];
          parts = parts @ [''EXPERIENCE\<newline>'' @ join ''\<newline>'' (map bullet (fallback_exp_lines data))];
          parts = parts @ [''\<newline>SKILLS\<newline>'' @ join ''\<newline>'' (map bullet (fallback_skills data))];
          parts = parts @ [''\<newline>CERTIFICATIONS\<newline>'' @ fallback_certs_text data];
          parts = (if truthy (education data)
                   then parts @ [''\<newline>EDUCATION\<newline>'' @ get_default (education data) '''']
                   else parts)
      in parts)"

text \<open>Lines 167-198.  The variable \<open>name\<close> is read at line 168 and never used.\<close>

definition build_fallback_resume_text :: "profile \<Rightarrow> string" where
  "build_fallback_resume_text data =
     (let name' = get_default (name data) ''''
      in join ''\<newline>'' (fallback_parts data))"


section \<open>Exceptions and Python values\<close>

text \<open>
  An exception is a value.  Every exception of the model is an instance of Python's
  \<open>Exception\<close>, which is what the two handlers of the source, both
  \<open>except Exception\<close>, catch.  \<open>Raised c\<close> is an exception of class \<open>c\<close> raised by a
  library or by the operating system.
\<close>

datatype py_exception = KeyError | IndexError | TypeError | AttributeError | Raised string

text \<open>The values a parsed service response is made of.\<close>

datatype pyobj =
    PNone
  | PInt int
  | PStr ustr
  | PList "pyobj list"
  | PDict "(string \<times> pyobj) list"

text \<open>\<open>obj[k]\<close> for a string key \<open>k\<close>: only a dictionary can be indexed by a string.\<close>

fun subscript_key :: "pyobj \<Rightarrow> string \<Rightarrow> py_exception + pyobj" where
  "subscript_key (PDict d) k = (case map_of d k of None \<Rightarrow> Inl KeyError | Some v \<Rightarrow> Inr v)"
| "subscript_key obj k = Inl TypeError"

text \<open>
  \<open>obj[0]\<close>: the first element of a list, the first character of a string; a
  dictionary with string keys has no key \<open>0\<close>.
\<close>

fun subscript_0 :: "pyobj \<Rightarrow> py_exception + pyobj" where
  "subscript_0 (PList []) = Inl IndexError"
| "subscript_0 (PList (v # vs)) = Inr v"
| "subscript_0 (PStr []) = Inl IndexError"
| "subscript_0 (PStr (c # cs)) = Inr (PStr [c])"
| "subscript_0 (PDict d) = Inl KeyError"
| "subscript_0 obj = Inl TypeError"

text \<open>\<open>obj.strip()\<close>: only a string has the method.\<close>

fun method_strip :: "pyobj \<Rightarrow> py_exception + ustr" where
  "method_strip (PStr s) = Inr (ustrip s)"
| "method_strip obj = Inl AttributeError"

text \<open>Sequencing: the first exception raised ends the computation.\<close>

definition and_then :: "py_exception + 'a \<Rightarrow> ('a \<Rightarrow> py_exception + 'b) \<Rightarrow> py_exception + 'b" where
  "and_then r f = (case r of Inl e \<Rightarrow> Inl e | Inr v \<Rightarrow> f v)"

section \<open>Synthesis: \<open>generate_resume_text\<close>\<close>

text \<open>
  What the function reads from outside itself: whether \<open>import openai\<close> succeeded
  (lines 132-136), the environment variable read at line 139, and the two library calls,
  \<open>json.dumps(data, indent=2)\<close> and \<open>openai.ChatCompletion.create\<close>.  The completion
  call is given the prompt; it raises or returns a response object.
\<close>

record synth_env =
  OPENAI_AVAILABLE :: bool
  OPENAI_API_KEY :: "string option"
  json_dumps :: "profile \<Rightarrow> string"
  chat_completion :: "string \<Rightarrow> py_exception + pyobj"

text \<open>
  What the function does to the outside: the remote call it makes, with its prompt, and
  the warning it shows through \<open>st.warning\<close>, with the exception it reports.
\<close>

datatype synth_event = RemoteCall string | Warning py_exception

text \<open>Lines 155-165.\<close>

definition build_prompt_for_openai :: "(profile \<Rightarrow> string) \<Rightarrow> profile \<Rightarrow> string" where
  "build_prompt_for_openai dumps data =
     ''You are a helpful assistant that writes concise, professional resume content ''
     @ ''for blue-collar professionals. Produce:\<newline>''
     @ ''1) Professional Summary\<newline>''
     @ ''2) Experience\<newline>''
     @ ''3) Skills and Certifications\<newline>''
     @ ''4) Education\<newline>\<newline>''
     @ ''User data (JSON):\<newline>'' @ dumps data"

text \<open>Line 150: \<open>resp["choices"][0]["message"]["content"].strip()\<close>.\<close>

definition response_content :: "pyobj \<Rightarrow> py_exception + ustr" where
  "response_content resp =
     and_then (subscript_key resp ''choices'') (\<lambda>choices.
     and_then (subscript_0 choices) (\<lambda>choice.
     and_then (subscript_key choice ''message'') (\<lambda>message.
     and_then (subscript_key message ''content'') method_strip)))"

text \<open>Lines 144-150, the body of the \<open>try\<close>: the call, then the content of its response.\<close>

definition remote_attempt :: "synth_env \<Rightarrow> string \<Rightarrow> py_exception + ustr" where
  "remote_attempt env prompt = and_then (chat_completion env prompt) response_content"

text \<open>
  Lines 138-153.  The result is the returned text, or the exception that leaves the
  function, together with the events in the order they happen.
\<close>

definition generate_resume_text ::
  "synth_env \<Rightarrow> profile \<Rightarrow> (py_exception + ustr) \<times> synth_event list" where
  "generate_resume_text env data =
     (let api_key = OPENAI_API_KEY env
      in if OPENAI_AVAILABLE env \<and> truthy api_key then
           (let prompt = build_prompt_for_openai (json_dumps env) data
            in case remote_attempt env prompt of
                 Inr text \<Rightarrow> (Inr text, [RemoteCall prompt])
               | Inl e \<Rightarrow>
                   (Inr (ustr_of (build_fallback_resume_text data)),
                    [RemoteCall prompt, Warning e]))
         else (Inr (ustr_of (build_fallback_resume_text data)), []))"

section \<open>The PDF document\<close>

text \<open>
  The \<open>FPDF\<close> object is modelled by what the source does to it: a cursor, the current
  text colour and font, and the list of what has been drawn, each item with the position
  it was drawn at.  Lengths are in the document's unit (millimetres) and are exact
  rationals; the coordinates the source uses are small whole numbers.  The cursor rules
  are those of the library's interface: \<open>set_y\<close> moves the cursor to the left margin,
  a \<open>cell\<close> with \<open>ln=True\<close> draws at the cursor and moves it to the left margin of
  the next line, one cell height down, and an \<open>image\<close> given both coordinates does not
  move it.  The calls that set the cursor, the colour or the font are taken not to raise;
  the calls that are given a file, a text or the page to serialise may.
\<close>

type_synonym color = "nat \<times> nat \<times> nat"

type_synonym font = "string \<times> string \<times> nat"

text \<open>
  An image is drawn from a file at \<open>x\<close>, \<open>y\<close> with a width and a height; a cell and a
  block of wrapped text are drawn at \<open>x\<close>, \<open>y\<close> with a width and a line height, a
  text, and the font and text colour current when they are drawn.
\<close>

datatype item =
    ImageItem string rat rat rat rat
  | CellItem rat rat rat rat ustr "font option" color
  | MultiCellItem rat rat rat rat ustr "font option" color

fun is_image :: "item \<Rightarrow> bool" where
  "is_image (ImageItem file x y w h) = True"
| "is_image other = False"

record pdf =
  l_margin :: rat
  auto_page_break :: "bool \<times> rat"
  page_count :: nat
  cur_x :: rat
  cur_y :: rat
  text_color :: color
  cur_font :: "font option"
  items :: "item list"

text \<open>
  \<open>FPDF()\<close>: an empty document, black text, no font selected.  The page margin is the
  library's default, left as a parameter.
\<close>

definition FPDF :: "rat \<Rightarrow> pdf" where
  "FPDF margin =
     \<lparr>l_margin = margin, auto_page_break = (True, 2 * margin), page_count = 0,
      cur_x = margin, cur_y = margin, text_color = (0, 0, 0), cur_font = None, items = []\<rparr>"

definition set_auto_page_break :: "bool \<Rightarrow> rat \<Rightarrow> pdf \<Rightarrow> pdf" where
  "set_auto_page_break auto margin doc = doc\<lparr>auto_page_break := (auto, margin)\<rparr>"

definition add_page :: "pdf \<Rightarrow> pdf" where
  "add_page doc = doc\<lparr>page_count := page_count doc + 1,
                        cur_x := l_margin doc, cur_y := l_margin doc\<rparr>"

definition set_x :: "rat \<Rightarrow> pdf \<Rightarrow> pdf" where
  "set_x x doc = doc\<lparr>cur_x := x\<rparr>"

definition set_y :: "rat \<Rightarrow> pdf \<Rightarrow> pdf" where
  "set_y y doc = doc\<lparr>cur_x := l_margin doc, cur_y := y\<rparr>"

definition set_xy :: "rat \<Rightarrow> rat \<Rightarrow> pdf \<Rightarrow> pdf" where
  "set_xy x y doc = set_x x (set_y y doc)"

definition get_y :: "pdf \<Rightarrow> rat" where
  "get_y doc = cur_y doc"

definition set_text_color :: "color \<Rightarrow> pdf \<Rightarrow> pdf" where
  "set_text_color c doc = doc\<lparr>text_color := c\<rparr>"

definition set_font :: "font \<Rightarrow> pdf \<Rightarrow> pdf" where
  "set_font f doc = doc\<lparr>cur_font := Some f\<rparr>"

definition image :: "string \<Rightarrow> rat \<Rightarrow> rat \<Rightarrow> rat \<Rightarrow> rat \<Rightarrow> pdf \<Rightarrow> pdf" where
  "image file x y w h doc = doc\<lparr>items := items doc @ [ImageItem file x y w h]\<rparr>"

text \<open>
  \<open>cell(w, h, txt, ln=True)\<close> and \<open>multi_cell(w, h, txt)\<close>.  The library may refuse a
  text (\<open>text_fault\<close> gives the exception it raises, if any); nothing is drawn then.
  Where the cursor stands after a \<open>multi_cell\<close> depends on how the library wraps the
  text; the source does not read it again, and the model leaves it where it was.
\<close>

definition cell ::
  "(ustr \<Rightarrow> py_exception option) \<Rightarrow> rat \<Rightarrow> rat \<Rightarrow> ustr \<Rightarrow> pdf \<Rightarrow> py_exception + pdf" where
  "cell text_fault w h t doc =
     (case text_fault t of
        Some e \<Rightarrow> Inl e
      | None \<Rightarrow>
          Inr (doc\<lparr>items := items doc
                        @ [CellItem (cur_x doc) (cur_y doc) w h t (cur_font doc) (text_color doc)],
                    cur_x := l_margin doc, cur_y := cur_y doc + h\<rparr>))"

definition multi_cell ::
  "(ustr \<Rightarrow> py_exception option) \<Rightarrow> rat \<Rightarrow> rat \<Rightarrow> ustr \<Rightarrow> pdf \<Rightarrow> py_exception + pdf" where
  "multi_cell text_fault w h t doc =
     (case text_fault t of
        Some e \<Rightarrow> Inl e
      | None \<Rightarrow>
          Inr (doc\<lparr>items := items doc
                        @ [MultiCellItem (cur_x doc) (cur_y doc) w h t (cur_font doc)
                             (text_color doc)]\<rparr>))"

section \<open>Rendering: \<open>create_pdf_bytes\<close>\<close>

text \<open>
  \<open>s.upper()\<close> for a string below U+0100.  a-z and the Latin-1 small letters
  U+00E0..U+00FE (the division sign U+00F7 apart) move down by 32; the micro sign becomes
  U+039C, the sharp s becomes SS, and y with diaeresis becomes U+0178, so the result is a
  list of code points.
\<close>

definition upper_char :: "char \<Rightarrow> ustr" where
  "upper_char c =
     (let n = (of_char c :: nat)
      in if 97 \<le> n \<and> n \<le> 122 then [n - 32]
         else if n = 181 then [924]
         else if n = 223 then [83, 83]
         else if 224 \<le> n \<and> n \<le> 254 \<and> n \<noteq> 247 then [n - 32]
         else if n = 255 then [376]
         else [n])"

definition upper :: "string \<Rightarrow> ustr" where
  "upper s = concat (map upper_char s)"

text \<open>\<open>s.encode('latin-1', 'ignore')\<close>: the code points above U+00FF are left out.\<close>

definition encode_latin1_ignore :: "ustr \<Rightarrow> bytes" where
  "encode_latin1_ignore s = map of_nat (filter (\<lambda>c. c < 256) s)"

text \<open>What \<open>pdf.output(dest='S')\<close> returns: a \<open>str\<close> or a byte sequence.\<close>

datatype out_value = OutStr ustr | OutBytes bytes

text \<open>
  The steps of the \<open>try\<close> block at lines 213-219 that call a library or the operating
  system, in the order they run.
\<close>

datatype photo_step =
  CreateTemp | WriteTemp | FlushTemp | OpenImage | ConvertRGB | SaveImage | EmbedImage

text \<open>
  What the function takes from outside itself: the library's default margin, the name of
  the file that \<open>NamedTemporaryFile\<close> creates, for each step of the photo block the
  exception it raises (if any), the exception the library raises for a text it is asked
  to draw (if any), and the result of \<open>pdf.output(dest='S')\<close>.
\<close>

record render_env =
  lib_margin :: rat
  tmp_name :: string
  photo_fault :: "photo_step \<Rightarrow> py_exception option"
  text_fault :: "ustr \<Rightarrow> py_exception option"
  output_S :: "pdf \<Rightarrow> py_exception + out_value"

text \<open>The files that exist, and what has been printed (the exception each line reports).\<close>

record world =
  files :: "string set"
  printed :: "py_exception list"

text \<open>
  Lines 213-219, the body of the \<open>try\<close>.  The result says whether the local variable
  \<open>tmp_path\<close> has been bound, and to what, and which exception ended the block, if
  one did.  \<open>NamedTemporaryFile(delete=False)\<close> creates the file, and leaving the
  \<open>with\<close> block closes it without deleting it; \<open>tmp_path\<close> is bound by the last
  statement of the \<open>with\<close> block, after the write and the flush.
\<close>

definition photo_try ::
  "render_env \<Rightarrow> pdf \<Rightarrow> world \<Rightarrow> string option \<times> py_exception option \<times> pdf \<times> world" where
  "photo_try env doc w =
     (case photo_fault env CreateTemp of
        Some e \<Rightarrow> (None, Some e, doc, w)
      | None \<Rightarrow>
     let w = w\<lparr>files := insert (tmp_name env) (files w)\<rparr> in
     case photo_fault env WriteTemp of
        Some e \<Rightarrow> (None, Some e, doc, w)
      | None \<Rightarrow>
     case photo_fault env FlushTemp of
        Some e \<Rightarrow> (None, Some e, doc, w)
      | None \<Rightarrow>
     let tmp_path = Some (tmp_name env) in
     case photo_fault env OpenImage of
        Some e \<Rightarrow> (tmp_path, Some e, doc, w)
      | None \<Rightarrow>
     case photo_fault env ConvertRGB of
        Some e \<Rightarrow> (tmp_path, Some e, doc, w)
      | None \<Rightarrow>
     case photo_fault env SaveImage of
        Some e \<Rightarrow> (tmp_path, Some e, doc, w)
      | None \<Rightarrow>
     case photo_fault env EmbedImage of
        Some e \<Rightarrow> (tmp_path, Some e, doc, w)
      | None \<Rightarrow> (tmp_path, None, image (tmp_name env) 15 20 35 35 doc, w))"

text \<open>
  Lines 212-224: the \<open>try\<close>, its handler, which prints the exception, and the
  \<open>finally\<close> clause, which removes the file when \<open>tmp_path\<close> is bound and the file
  exists.  \<open>os.path.exists\<close> and \<open>os.remove\<close> are taken not to raise.
\<close>

definition photo_block :: "render_env \<Rightarrow> pdf \<Rightarrow> world \<Rightarrow> pdf \<times> world" where
  "photo_block env doc w =
     (case photo_try env doc w of
        (tmp_path, raised, doc, w) \<Rightarrow>
          let w = (case raised of
                     Some e \<Rightarrow> w\<lparr>printed := printed w @ [e]\<rparr>
                   | None \<Rightarrow> w);
              w = (case tmp_path of
                     Some p \<Rightarrow> if p \<in> files w then w\<lparr>files := files w - {p}\<rparr> else w
                   | None \<Rightarrow> w)
          in (doc, w))"

text \<open>Lines 236-243: the contact line, drawn when the dictionary is given and not empty.\<close>

definition contact_line :: "(string \<times> ustr) list \<Rightarrow> ustr" where
  "contact_line contact_info =
     join (ustr_of '' | '')
       [v. Some v \<leftarrow> [map_of contact_info ''city'', map_of contact_info ''phone'',
                        map_of contact_info ''email''], v \<noteq> []]"

definition heading_font :: font where
  "heading_font = (''Helvetica'', ''B'', 20)"

definition body_font :: font where
  "body_font = (''Helvetica'', '''', 12)"

definition primary_color :: "string \<Rightarrow> color" where
  "primary_color template = (if template = ''Modern Blue'' then (0, 102, 204) else (0, 0, 0))"

text \<open>
  Lines 226-247: the heading, the contact line and the body, drawn on the document the
  photo block leaves.  The first library call that raises ends the function: none of
  these lines is inside a \<open>try\<close>.
\<close>

definition draw_text ::
  "render_env \<Rightarrow> ustr \<Rightarrow> string option \<Rightarrow> (string \<times> ustr) list option \<Rightarrow> string \<Rightarrow> pdf
     \<Rightarrow> py_exception + pdf" where
  "draw_text env resume_text name' contact_info template doc =
     (let doc = set_xy 60 25 doc;
          doc = set_text_color (primary_color template) doc;
          doc = set_font heading_font doc
      in and_then (cell (text_fault env) 0 10 (upper (get_or name' '''')) doc) (\<lambda>doc.
         and_then (if truthy contact_info then
                     (let doc = set_font body_font doc;
                          doc = set_text_color (0, 0, 0) doc;
                          line = contact_line (get_or contact_info []);
                          doc = set_x 60 doc
                      in cell (text_fault env) 0 8 line doc)
                   else Inr doc) (\<lambda>doc.
         (let doc = set_y (get_y doc + 10) doc;
              doc = set_font body_font doc
          in multi_cell (text_fault env) 0 7 resume_text doc))))"

text \<open>
  Lines 204-247: the page, before it is serialised.  The parameters after the
  environment and the world are those of the source, in its order.
\<close>

definition create_pdf_page ::
  "render_env \<Rightarrow> world \<Rightarrow> ustr \<Rightarrow> string option \<Rightarrow> (string \<times> ustr) list option \<Rightarrow> string
     \<Rightarrow> bytes option \<Rightarrow> (py_exception + pdf) \<times> world" where
  "create_pdf_page env w resume_text name' contact_info template photo_bytes =
     (let doc = FPDF (lib_margin env);
          doc = set_auto_page_break True 15 doc;
          doc = add_page doc;
          (doc, w) = (if truthy photo_bytes then photo_block env doc w else (doc, w))
      in (draw_text env resume_text name' contact_info template doc, w))"

text \<open>Lines 202-250.\<close>

definition create_pdf_bytes ::
  "render_env \<Rightarrow> world \<Rightarrow> ustr \<Rightarrow> string option \<Rightarrow> (string \<times> ustr) list option \<Rightarrow> string
     \<Rightarrow> bytes option \<Rightarrow> (py_exception + bytes) \<times> world" where
  "create_pdf_bytes env w resume_text name' contact_info template photo_bytes =
     (case create_pdf_page env w resume_text name' contact_info template photo_bytes of
        (drawn, w) \<Rightarrow>
          (and_then drawn (\<lambda>doc.
           and_then (output_S env doc) (\<lambda>out.
             case out of
               OutStr s \<Rightarrow> Inr (encode_latin1_ignore s)
             | OutBytes b \<Rightarrow> Inr b)), w))"

text \<open>The two kinds of event, told apart.\<close>

fun is_remote_call :: "synth_event \<Rightarrow> bool" where
  "is_remote_call (RemoteCall prompt) = True"
| "is_remote_call (Warning e) = False"

fun is_warning :: "synth_event \<Rightarrow> bool" where
  "is_warning (Warning e) = True"
| "is_warning (RemoteCall prompt) = False"

text \<open>What a call of \<open>create_pdf_page\<close> has drawn: nothing when it raised.\<close>

definition page_items :: "(py_exception + pdf) \<times> world \<Rightarrow> item list" where
  "page_items r = (case fst r of Inl e \<Rightarrow> [] | Inr doc \<Rightarrow> items doc)"

section \<open>Example inputs\<close>

definition jane_doe :: profile where
  "jane_doe = \<lparr>name = Some ''Jane Doe'', city = None, phone = None, email = None,
      trade = Some ''Welder'', years_experience = Some ''5-10'', education = None,
      skills_text = None, skills_list = Some [], certifications = Some [],
      experience_text = Some '''', special_notes = Some ''''\<rparr>"

definition na_certified :: profile where
  "na_certified = jane_doe\<lparr>certifications := Some [''N/A'']\<rparr>"

definition jane_educated :: profile where
  "jane_educated = jane_doe\<lparr>education := Some ''Trade School Diploma''\<rparr>"

text \<open>
  Four environments of the synthesis: the client library missing; the library present
  and the credential empty; a service that cannot be reached; a service that answers
  with an empty list of choices.
\<close>

definition no_library_env :: synth_env where
  "no_library_env =
     \<lparr>OPENAI_AVAILABLE = False, OPENAI_API_KEY = Some ''sk-test'',
      json_dumps = (\<lambda>data. ''{}''),
      chat_completion = (\<lambda>prompt. Inr (PDict []))\<rparr>"

definition no_credential_env :: synth_env where
  "no_credential_env =
     \<lparr>OPENAI_AVAILABLE = True, OPENAI_API_KEY = Some '''',
      json_dumps = (\<lambda>data. ''{}''),
      chat_completion = (\<lambda>prompt. Inr (PDict []))\<rparr>"

definition unreachable_env :: synth_env where
  "unreachable_env =
     \<lparr>OPENAI_AVAILABLE = True, OPENAI_API_KEY = Some ''sk-test'',
      json_dumps = (\<lambda>data. ''{}''),
      chat_completion = (\<lambda>prompt. Inl (Raised ''APIConnectionError''))\<rparr>"

definition no_choices_env :: synth_env where
  "no_choices_env =
     \<lparr>OPENAI_AVAILABLE = True, OPENAI_API_KEY = Some ''sk-test'',
      json_dumps = (\<lambda>data. ''{}''),
      chat_completion = (\<lambda>prompt. Inr (PDict [(''choices'', PList [])]))\<rparr>"

text \<open>
  A serialiser for the examples: the texts of the page, one after the other, as a
  \<open>str\<close>.
\<close>

fun item_text :: "item \<Rightarrow> ustr" where
  "item_text (ImageItem file x y w h) = []"
| "item_text (CellItem x y w h t f c) = t"
| "item_text (MultiCellItem x y w h t f c) = t"

definition page_text :: "pdf \<Rightarrow> ustr" where
  "page_text doc = concat (map item_text (items doc))"

text \<open>
  Environments of the renderer.  In the first every step succeeds.  In the second the
  uploaded bytes are not an image and \<open>Image.open\<close> raises.  In the third the
  temporary file is created and writing the bytes to it raises, as on a full disk.  In
  the fourth the library refuses, when asked to draw it, a text with a character above
  U+00FF; in the fifth it accepts the text and raises when the page is serialised.
\<close>

definition plain_env :: render_env where
  "plain_env =
     \<lparr>lib_margin = 10, tmp_name = ''/tmp/tmp0001.png'', photo_fault = (\<lambda>step. None),
      text_fault = (\<lambda>t. None), output_S = (\<lambda>doc. Inr (OutStr (page_text doc)))\<rparr>"

definition undecodable_env :: render_env where
  "undecodable_env =
     plain_env\<lparr>photo_fault :=
        (\<lambda>step. if step = OpenImage then Some (Raised ''UnidentifiedImageError'') else None)\<rparr>"

definition disk_full_env :: render_env where
  "disk_full_env =
     plain_env\<lparr>photo_fault :=
        (\<lambda>step. if step = WriteTemp then Some (Raised ''OSError'') else None)\<rparr>"

definition strict_font_env :: render_env where
  "strict_font_env =
     plain_env\<lparr>text_fault :=
        (\<lambda>t. if list_ex (\<lambda>c. 256 \<le> c) t
             then Some (Raised ''FPDFUnicodeEncodingException'') else None)\<rparr>"

definition strict_output_env :: render_env where
  "strict_output_env =
     plain_env\<lparr>output_S :=
        (\<lambda>doc. if list_ex (\<lambda>c. 256 \<le> c) (page_text doc)
               then Inl (Raised ''UnicodeEncodeError'') else Inr (OutStr (page_text doc)))\<rparr>"

text \<open>An empty file system, a one-byte upload, and the contact dictionary of the caller
  (line 335) with the three fields left empty.\<close>

definition empty_world :: world where
  "empty_world = \<lparr>files = {}, printed = []\<rparr>"

definition one_byte :: bytes where
  "one_byte = [0]"

definition blank_contact :: "(string \<times> ustr) list" where
  "blank_contact = [(''city'', []), (''phone'', []), (''email'', [])]"

text \<open>A resume body with an en dash, U+2013, between two letters.\<close>

definition dash_text :: ustr where
  "dash_text = [65, 8211, 66]"

text \<open>A contact dictionary with a city and an email and an empty phone.\<close>

definition leeds_contact :: "(string \<times> ustr) list" where
  "leeds_contact =
     [(''city'', ustr_of ''Leeds''), (''phone'', []), (''email'', ustr_of ''jane@example.org'')]"

section \<open>Fallback synthesis: the text and its sections\<close>

lemma join_Cons: "join sep (x # xs) = (if xs = [] then x else x @ sep @ join sep xs)"
  by (cases xs) simp_all

lemma lower_Welder: "lower ''Welder'' = ''welder''"
  by code_simp

lemma fallback_parts_length:
  "length (fallback_parts data) = (if truthy (education data) then 5 else 4)"
  by (simp add: fallback_parts_def Let_def)

lemma build_fallback_resume_text_sections:
  "build_fallback_resume_text data =
     ''PROFESSIONAL SUMMARY\<newline>'' @ fallback_summary data
     @ ''\<newline>\<newline>EXPERIENCE\<newline>'' @ join ''\<newline>'' (map bullet (fallback_exp_lines data))
     @ ''\<newline>\<newline>SKILLS\<newline>'' @ join ''\<newline>'' (map bullet (fallback_skills data))
     @ ''\<newline>\<newline>CERTIFICATIONS\<newline>'' @ fallback_certs_text data
     @ (if truthy (education data)
        then ''\<newline>\<newline>EDUCATION\<newline>'' @ get_default (education data) '''' else [])"
  by (simp add: build_fallback_resume_text_def fallback_parts_def Let_def)

text \<open>
  Claim C1.  For every profile the summary is the sentence
  \<open>Reliable {trade} with {years} years of experience in {trade, lower-cased} work. \<close>,
  then the special notes as they are and one space when the notes are not empty, then
  the fixed closing clause; the synthesised text opens with the heading
  \<open>PROFESSIONAL SUMMARY\<close>, a line break, and this summary; and with the trade
  \<open>Welder\<close> and the years \<open>5-10\<close> the summary begins
  \<open>Reliable Welder with 5-10 years of experience in welder work.\<close>
\<close>

theorem fallback_summary_sentence:
  "fallback_summary data =
     ''Reliable '' @ get_default (trade data) '''' @ '' with ''
     @ get_default (years_experience data) '''' @ '' years of experience in ''
     @ lower (get_default (trade data) '''') @ '' work. ''
     @ (if truthy (special_notes data) then get_default (special_notes data) '''' @ '' '' else [])
     @ ''Known for strong work ethic, safety-first approach, and consistent on-time completion of projects.''
   \<and> (\<exists>rest. build_fallback_resume_text data
          = ''PROFESSIONAL SUMMARY\<newline>'' @ fallback_summary data @ ''\<newline>'' @ rest)
   \<and> (trade data = Some ''Welder'' \<and> years_experience data = Some ''5-10''
        \<longrightarrow> (\<exists>rest. fallback_summary data
              = ''Reliable Welder with 5-10 years of experience in welder work.'' @ rest))"
proof (intro conjI impI)
  show s: "fallback_summary data =
     ''Reliable '' @ get_default (trade data) '''' @ '' with ''
     @ get_default (years_experience data) '''' @ '' years of experience in ''
     @ lower (get_default (trade data) '''') @ '' work. ''
     @ (if truthy (special_notes data) then get_default (special_notes data) '''' @ '' '' else [])
     @ ''Known for strong work ethic, safety-first approach, and consistent on-time completion of projects.''"
    by (simp add: fallback_summary_def Let_def)
  show "\<exists>rest. build_fallback_resume_text data
          = ''PROFESSIONAL SUMMARY\<newline>'' @ fallback_summary data @ ''\<newline>'' @ rest"
    by (subst build_fallback_resume_text_sections) simp
  assume w: "trade data = Some ''Welder'' \<and> years_experience data = Some ''5-10''"
  show "\<exists>rest. fallback_summary data
              = ''Reliable Welder with 5-10 years of experience in welder work.'' @ rest"
    by (subst s) (simp add: w get_default_def lower_Welder)
qed

text \<open>The summary of the profile of Jane Doe, a welder with 5-10 years and no notes.\<close>

theorem fallback_summary_sentence_witness:
  "fallback_summary jane_doe =
     ''Reliable Welder with 5-10 years of experience in welder work. Known for strong work ethic, safety-first approach, and consistent on-time completion of projects.''"
  using fallback_summary_sentence [of jane_doe]
  by (simp add: jane_doe_def get_default_def truthy_def lower_Welder)


lemma comma_in_join:
  "CHR '','' \<in> set (join '', '' (x # y # ys))"
  by simp

lemma join_is_NA:
  "xs \<noteq> [] \<Longrightarrow> join '', '' xs = ''N/A'' \<longleftrightarrow> xs = [''N/A'']"
proof (cases xs)
  case Nil
  assume "xs \<noteq> []"
  with Nil show ?thesis by simp
next
  case (Cons x ys)
  show ?thesis
  proof (cases ys)
    case Nil
    with Cons show ?thesis by simp
  next
    case (Cons y zs)
    have "CHR '','' \<in> set (join '', '' (x # y # zs))"
      by (rule comma_in_join)
    moreover have "CHR '','' \<notin> set ''N/A''"
      by simp
    ultimately have "join '', '' (x # y # zs) \<noteq> ''N/A''"
      by metis
    with \<open>xs = x # ys\<close> Cons show ?thesis by simp
  qed
qed

lemma fallback_exp_lines_nonempty: "fallback_exp_lines data \<noteq> []"
  by (simp add: fallback_exp_lines_def Let_def)

lemma fallback_skills_nonempty: "fallback_skills data \<noteq> []"
  by (simp add: fallback_skills_def Let_def)

lemma fallback_parts_nth:
  "fallback_parts data ! 0 = ''PROFESSIONAL SUMMARY\<newline>'' @ fallback_summary data @ ''\<newline>''"
  "fallback_parts data ! 1 = ''EXPERIENCE\<newline>'' @ join ''\<newline>'' (map bullet (fallback_exp_lines data))"
  "fallback_parts data ! 2 = ''\<newline>SKILLS\<newline>'' @ join ''\<newline>'' (map bullet (fallback_skills data))"
  "fallback_parts data ! 3 = ''\<newline>CERTIFICATIONS\<newline>'' @ fallback_certs_text data"
  by (simp_all add: fallback_parts_def Let_def)

lemma fallback_parts_education:
  "truthy (education data) \<Longrightarrow>
     fallback_parts data ! 4 = ''\<newline>EDUCATION\<newline>'' @ get_default (education data) ''''"
  by (simp add: fallback_parts_def Let_def)

text \<open>
  Claim C2.  When no line of the experience text is non-empty after trimming, the
  experience bullets are the three fixed ones, the first naming the lower-cased trade;
  when the resolved skills list is empty, the skills bullets are the three fixed ones,
  the first naming the trade; so neither list of bullets is ever empty, and they are
  what the Experience and the Skills section, the second and third part of the text,
  are made of.
\<close>

theorem fallback_generic_bullets:
  "((\<forall>l \<in> set (splitlines (get_default (experience_text data) '''')). strip l = [])
      \<longrightarrow> fallback_exp_lines data =
            [''Performed '' @ lower (get_default (trade data) '''')
               @ '' tasks including installation, maintenance, and repairs.'',
             ''Followed safety protocols and maintained jobsite cleanliness.'',
             ''Collaborated with teams to complete projects on schedule.''])
   \<and> (resolved_skills data = []
      \<longrightarrow> fallback_skills data =
            [get_default (trade data) '''' @ '' installation'',
             ''Equipment maintenance'', ''Safety compliance''])
   \<and> fallback_exp_lines data \<noteq> [] \<and> fallback_skills data \<noteq> []
   \<and> fallback_parts data ! 1
       = ''EXPERIENCE\<newline>'' @ join ''\<newline>'' (map bullet (fallback_exp_lines data))
   \<and> fallback_parts data ! 2
       = ''\<newline>SKILLS\<newline>'' @ join ''\<newline>'' (map bullet (fallback_skills data))"
proof (intro conjI impI)
  assume "\<forall>l \<in> set (splitlines (get_default (experience_text data) '''')). strip l = []"
  then have "[strip l. l \<leftarrow> splitlines (get_default (experience_text data) ''''), strip l \<noteq> []] = []"
    by (induction "splitlines (get_default (experience_text data) '''')") auto
  then show "fallback_exp_lines data =
            [''Performed '' @ lower (get_default (trade data) '''')
               @ '' tasks including installation, maintenance, and repairs.'',
             ''Followed safety protocols and maintained jobsite cleanliness.'',
             ''Collaborated with teams to complete projects on schedule.'']"
    by (simp add: fallback_exp_lines_def Let_def)
next
  assume "resolved_skills data = []"
  then show "fallback_skills data =
            [get_default (trade data) '''' @ '' installation'',
             ''Equipment maintenance'', ''Safety compliance'']"
    by (simp add: fallback_skills_def Let_def)
qed (simp_all add: fallback_exp_lines_nonempty fallback_skills_nonempty fallback_parts_def Let_def)

text \<open>Jane Doe's profile has no experience text and no skills: both sets are the fixed ones.\<close>

theorem fallback_generic_bullets_witness:
  "fallback_exp_lines jane_doe =
     [''Performed welder tasks including installation, maintenance, and repairs.'',
      ''Followed safety protocols and maintained jobsite cleanliness.'',
      ''Collaborated with teams to complete projects on schedule.'']
   \<and> fallback_skills jane_doe =
     [''Welder installation'', ''Equipment maintenance'', ''Safety compliance'']"
  using fallback_generic_bullets [of jane_doe]
  by (simp add: jane_doe_def get_default_def get_or_def truthy_def resolved_skills_def
      splitlines_def split_def strip_def lower_Welder)


text \<open>
  Claim C3, as amended.  The certifications line is \<open>N/A\<close> when the resolved list is
  empty and the join of the list with \<open>, \<close>, in the list's order, when it is not; the
  line is \<open>N/A\<close> exactly for the empty list and for the list whose only element is the
  string \<open>N/A\<close>.  The line is what follows the heading of the fourth part of the text.
\<close>

theorem fallback_certs_line:
  "(resolved_certs data = [] \<longrightarrow> fallback_certs_text data = ''N/A'')
   \<and> (resolved_certs data \<noteq> []
        \<longrightarrow> fallback_certs_text data = join '', '' (resolved_certs data))
   \<and> (fallback_certs_text data = ''N/A''
        \<longleftrightarrow> resolved_certs data = [] \<or> resolved_certs data = [''N/A''])
   \<and> fallback_parts data ! 3 = ''\<newline>CERTIFICATIONS\<newline>'' @ fallback_certs_text data"
proof (intro conjI impI)
  show "fallback_certs_text data = ''N/A''
        \<longleftrightarrow> resolved_certs data = [] \<or> resolved_certs data = [''N/A'']"
  proof (cases "resolved_certs data = []")
    case True
    then show ?thesis by (simp add: fallback_certs_text_def)
  next
    case False
    then show ?thesis
      using join_is_NA [of "resolved_certs data"] by (simp add: fallback_certs_text_def)
  qed
qed (simp_all add: fallback_certs_text_def fallback_parts_def Let_def)

text \<open>No certification gives \<open>N/A\<close>; two certifications are joined in their order.\<close>

theorem fallback_certs_line_witness:
  "fallback_certs_text jane_doe = ''N/A''
   \<and> fallback_certs_text (jane_doe\<lparr>certifications := Some [''OSHA 10'', ''AWS D1.1'']\<rparr>)
       = ''OSHA 10, AWS D1.1''"
  using fallback_certs_line [of jane_doe]
    fallback_certs_line [of "jane_doe\<lparr>certifications := Some [''OSHA 10'', ''AWS D1.1'']\<rparr>"]
  by (simp add: jane_doe_def resolved_certs_def get_or_def)

text \<open>
  Claim C3 as it is stated, an equivalence, fails for the profile whose one
  certification is the string \<open>N/A\<close>: the line is \<open>N/A\<close> and the list is not empty.
\<close>

theorem certs_sentinel_counterexample:
  "fallback_certs_text na_certified = ''N/A'' \<and> resolved_certs na_certified \<noteq> []"
  by (simp add: na_certified_def jane_doe_def fallback_certs_text_def resolved_certs_def get_or_def)



lemma map_bullet: "map bullet es = map (\<lambda>e. ''- '' @ e) es"
  by (simp add: bullet_def)

lemma fallback_without_education:
  "fallback_summary (data\<lparr>education := x\<rparr>) = fallback_summary data"
  "fallback_exp_lines (data\<lparr>education := x\<rparr>) = fallback_exp_lines data"
  "fallback_skills (data\<lparr>education := x\<rparr>) = fallback_skills data"
  "fallback_certs_text (data\<lparr>education := x\<rparr>) = fallback_certs_text data"
  by (simp_all add: fallback_summary_def fallback_exp_lines_def fallback_skills_def
      resolved_skills_def fallback_certs_text_def resolved_certs_def Let_def)

text \<open>
  Claim C4.  The returned text is the sections in the order Summary, Experience, Skills,
  Certifications, Education, each under its heading in capitals and two line breaks after
  the section before it; in the Experience and the Skills section every line is a dash, a
  space and then the entry itself, the lines in the order of the entries.  The returned
  text is the text of the same profile without an education, followed by the Education
  section when the education field is non-empty and by nothing otherwise; that section
  is the heading followed by the education string as it is.  So the returned text
  differs from the text without an education exactly when the education field is
  non-empty, and the list of parts has its fifth element exactly then.
\<close>

theorem fallback_sections_order:
  "build_fallback_resume_text data =
       ''PROFESSIONAL SUMMARY\<newline>'' @ fallback_summary data
       @ ''\<newline>\<newline>EXPERIENCE\<newline>''
       @ join ''\<newline>'' (map (\<lambda>e. ''- '' @ e) (fallback_exp_lines data))
       @ ''\<newline>\<newline>SKILLS\<newline>''
       @ join ''\<newline>'' (map (\<lambda>s. ''- '' @ s) (fallback_skills data))
       @ ''\<newline>\<newline>CERTIFICATIONS\<newline>'' @ fallback_certs_text data
       @ (if truthy (education data)
          then ''\<newline>\<newline>EDUCATION\<newline>'' @ get_default (education data) '''' else [])
   \<and> build_fallback_resume_text (data\<lparr>education := None\<rparr>) =
       ''PROFESSIONAL SUMMARY\<newline>'' @ fallback_summary data
       @ ''\<newline>\<newline>EXPERIENCE\<newline>''
       @ join ''\<newline>'' (map (\<lambda>e. ''- '' @ e) (fallback_exp_lines data))
       @ ''\<newline>\<newline>SKILLS\<newline>''
       @ join ''\<newline>'' (map (\<lambda>s. ''- '' @ s) (fallback_skills data))
       @ ''\<newline>\<newline>CERTIFICATIONS\<newline>'' @ fallback_certs_text data
   \<and> build_fallback_resume_text data =
       build_fallback_resume_text (data\<lparr>education := None\<rparr>)
       @ (if truthy (education data)
          then ''\<newline>\<newline>EDUCATION\<newline>'' @ get_default (education data) '''' else [])
   \<and> (build_fallback_resume_text data \<noteq> build_fallback_resume_text (data\<lparr>education := None\<rparr>)
        \<longleftrightarrow> truthy (education data))
   \<and> fallback_parts data =
       [''PROFESSIONAL SUMMARY\<newline>'' @ fallback_summary data @ ''\<newline>'',
        ''EXPERIENCE\<newline>'' @ join ''\<newline>'' (map (\<lambda>e. ''- '' @ e) (fallback_exp_lines data)),
        ''\<newline>SKILLS\<newline>'' @ join ''\<newline>'' (map (\<lambda>s. ''- '' @ s) (fallback_skills data)),
        ''\<newline>CERTIFICATIONS\<newline>'' @ fallback_certs_text data]
       @ (if truthy (education data)
          then [''\<newline>EDUCATION\<newline>'' @ get_default (education data) ''''] else [])
   \<and> (length (fallback_parts data) = 5 \<longleftrightarrow> truthy (education data))
   \<and> build_fallback_resume_text data = join ''\<newline>'' (fallback_parts data)"
proof -
  let ?four = "''PROFESSIONAL SUMMARY\<newline>'' @ fallback_summary data
       @ ''\<newline>\<newline>EXPERIENCE\<newline>''
       @ join ''\<newline>'' (map (\<lambda>e. ''- '' @ e) (fallback_exp_lines data))
       @ ''\<newline>\<newline>SKILLS\<newline>''
       @ join ''\<newline>'' (map (\<lambda>s. ''- '' @ s) (fallback_skills data))
       @ ''\<newline>\<newline>CERTIFICATIONS\<newline>'' @ fallback_certs_text data"
  let ?edu = "if truthy (education data)
          then ''\<newline>\<newline>EDUCATION\<newline>'' @ get_default (education data) '''' else []"
  have whole: "build_fallback_resume_text data =
       ''PROFESSIONAL SUMMARY\<newline>'' @ fallback_summary data
       @ ''\<newline>\<newline>EXPERIENCE\<newline>''
       @ join ''\<newline>'' (map (\<lambda>e. ''- '' @ e) (fallback_exp_lines data))
       @ ''\<newline>\<newline>SKILLS\<newline>''
       @ join ''\<newline>'' (map (\<lambda>s. ''- '' @ s) (fallback_skills data))
       @ ''\<newline>\<newline>CERTIFICATIONS\<newline>'' @ fallback_certs_text data
       @ ?edu"
    by (simp add: build_fallback_resume_text_sections map_bullet)
  have "\<not> truthy (education (data\<lparr>education := None\<rparr>))"
    by (simp add: truthy_def)
  then have four: "build_fallback_resume_text (data\<lparr>education := None\<rparr>) = ?four"
    by (simp add: build_fallback_resume_text_sections map_bullet fallback_without_education)
  have differs: "build_fallback_resume_text data
        \<noteq> build_fallback_resume_text (data\<lparr>education := None\<rparr>)
      \<longleftrightarrow> truthy (education data)"
    unfolding whole four by simp
  have parts: "fallback_parts data =
       [''PROFESSIONAL SUMMARY\<newline>'' @ fallback_summary data @ ''\<newline>'',
        ''EXPERIENCE\<newline>'' @ join ''\<newline>'' (map (\<lambda>e. ''- '' @ e) (fallback_exp_lines data)),
        ''\<newline>SKILLS\<newline>'' @ join ''\<newline>'' (map (\<lambda>s. ''- '' @ s) (fallback_skills data)),
        ''\<newline>CERTIFICATIONS\<newline>'' @ fallback_certs_text data]
       @ (if truthy (education data)
          then [''\<newline>EDUCATION\<newline>'' @ get_default (education data) ''''] else [])"
    by (simp add: fallback_parts_def map_bullet Let_def)
  have len: "length (fallback_parts data) = 5 \<longleftrightarrow> truthy (education data)"
    by (simp add: fallback_parts_length)
  have joined: "build_fallback_resume_text data = join ''\<newline>'' (fallback_parts data)"
    by (simp add: build_fallback_resume_text_def)
  from whole four have appended: "build_fallback_resume_text data =
       build_fallback_resume_text (data\<lparr>education := None\<rparr>) @ ?edu"
    by simp
  show ?thesis
    by (intro conjI; (rule whole four appended differs parts len joined))
qed

text \<open>
  Jane Doe's text, with the diploma and without it: the three generic bullets of each
  section with their dashes, and the Education section at the end of the first text only.
\<close>

theorem fallback_sections_order_witness:
  "build_fallback_resume_text jane_educated =
     ''PROFESSIONAL SUMMARY\<newline>''
     @ ''Reliable Welder with 5-10 years of experience in welder work. ''
     @ ''Known for strong work ethic, safety-first approach, and consistent on-time completion of projects.''
     @ ''\<newline>\<newline>EXPERIENCE\<newline>''
     @ ''- Performed welder tasks including installation, maintenance, and repairs.\<newline>''
     @ ''- Followed safety protocols and maintained jobsite cleanliness.\<newline>''
     @ ''- Collaborated with teams to complete projects on schedule.''
     @ ''\<newline>\<newline>SKILLS\<newline>''
     @ ''- Welder installation\<newline>''
     @ ''- Equipment maintenance\<newline>''
     @ ''- Safety compliance''
     @ ''\<newline>\<newline>CERTIFICATIONS\<newline>N/A''
     @ ''\<newline>\<newline>EDUCATION\<newline>Trade School Diploma''
   \<and> build_fallback_resume_text jane_educated =
       build_fallback_resume_text jane_doe @ ''\<newline>\<newline>EDUCATION\<newline>Trade School Diploma''
   \<and> build_fallback_resume_text jane_educated \<noteq> build_fallback_resume_text jane_doe
   \<and> length (fallback_parts jane_educated) = 5
   \<and> length (fallback_parts jane_doe) \<noteq> 5"
proof -
  note with_education = fallback_sections_order [of jane_educated]
  note without_education = fallback_sections_order [of jane_doe]
  have e: "truthy (education jane_educated)"
    "get_default (education jane_educated) [] = ''Trade School Diploma''"
    "jane_educated\<lparr>education := None\<rparr> = jane_doe"
    by (simp_all add: jane_educated_def jane_doe_def truthy_def get_default_def)
  have n: "\<not> truthy (education jane_doe)"
    by (simp add: jane_doe_def truthy_def)
  have sections: "fallback_summary jane_educated =
      ''Reliable Welder with 5-10 years of experience in welder work. ''
      @ ''Known for strong work ethic, safety-first approach, and consistent on-time completion of projects.''"
    "fallback_exp_lines jane_educated =
      [''Performed welder tasks including installation, maintenance, and repairs.'',
       ''Followed safety protocols and maintained jobsite cleanliness.'',
       ''Collaborated with teams to complete projects on schedule.'']"
    "fallback_skills jane_educated =
      [''Welder installation'', ''Equipment maintenance'', ''Safety compliance'']"
    "fallback_certs_text jane_educated = ''N/A''"
    by (simp_all add: jane_educated_def jane_doe_def fallback_summary_def
        fallback_exp_lines_def fallback_skills_def resolved_skills_def fallback_certs_text_def
        resolved_certs_def truthy_def get_default_def get_or_def splitlines_def split_def
        strip_def lower_Welder Let_def)
  from with_education [THEN conjunct1] have "build_fallback_resume_text jane_educated =
     ''PROFESSIONAL SUMMARY\<newline>''
     @ ''Reliable Welder with 5-10 years of experience in welder work. ''
     @ ''Known for strong work ethic, safety-first approach, and consistent on-time completion of projects.''
     @ ''\<newline>\<newline>EXPERIENCE\<newline>''
     @ ''- Performed welder tasks including installation, maintenance, and repairs.\<newline>''
     @ ''- Followed safety protocols and maintained jobsite cleanliness.\<newline>''
     @ ''- Collaborated with teams to complete projects on schedule.''
     @ ''\<newline>\<newline>SKILLS\<newline>''
     @ ''- Welder installation\<newline>''
     @ ''- Equipment maintenance\<newline>''
     @ ''- Safety compliance''
     @ ''\<newline>\<newline>CERTIFICATIONS\<newline>N/A''
     @ ''\<newline>\<newline>EDUCATION\<newline>Trade School Diploma''"
    unfolding sections by (simp add: e)
  moreover from with_education [THEN conjunct2, THEN conjunct2, THEN conjunct1]
  have "build_fallback_resume_text jane_educated =
       build_fallback_resume_text jane_doe @ ''\<newline>\<newline>EDUCATION\<newline>Trade School Diploma''"
    by (simp add: e)
  moreover from with_education [THEN conjunct2, THEN conjunct2, THEN conjunct2, THEN conjunct1]
  have "build_fallback_resume_text jane_educated \<noteq> build_fallback_resume_text jane_doe"
    by (simp add: e)
  moreover from with_education e have "length (fallback_parts jane_educated) = 5"
    by blast
  moreover from without_education n have "length (fallback_parts jane_doe) \<noteq> 5"
    by blast
  ultimately show ?thesis by blast
qed

lemma identity_fields_summary:
  "fallback_summary (data\<lparr>name := n, city := c, phone := ph, email := e\<rparr>) = fallback_summary data"
  by (simp add: fallback_summary_def Let_def)

lemma identity_fields_exp_lines:
  "fallback_exp_lines (data\<lparr>name := n, city := c, phone := ph, email := e\<rparr>) = fallback_exp_lines data"
  by (simp add: fallback_exp_lines_def Let_def)

lemma identity_fields_skills:
  "fallback_skills (data\<lparr>name := n, city := c, phone := ph, email := e\<rparr>) = fallback_skills data"
  by (simp add: fallback_skills_def resolved_skills_def Let_def)

lemma identity_fields_certs:
  "fallback_certs_text (data\<lparr>name := n, city := c, phone := ph, email := e\<rparr>) = fallback_certs_text data"
  by (simp add: fallback_certs_text_def resolved_certs_def Let_def)

text \<open>
  Claim C10.  The synthesised text does not depend on the name, city, phone and email
  of the profile: replacing the four fields by any values leaves the text unchanged.
\<close>

theorem fallback_ignores_identity_fields:
  "build_fallback_resume_text (data\<lparr>name := n, city := c, phone := ph, email := e\<rparr>)
   = build_fallback_resume_text data"
  by (simp add: build_fallback_resume_text_def fallback_parts_def identity_fields_summary
      identity_fields_exp_lines identity_fields_skills identity_fields_certs Let_def)

text \<open>Jane Doe's text is that of a profile with another name and other contact fields.\<close>

theorem fallback_ignores_identity_fields_witness:
  "build_fallback_resume_text
     (jane_doe\<lparr>name := Some ''John Roe'', city := Some ''Leeds'',
                phone := Some ''555-0100'', email := Some ''john@example.org''\<rparr>)
   = build_fallback_resume_text jane_doe"
  by (rule fallback_ignores_identity_fields)

section \<open>Synthesis: the remote attempt and the fallback\<close>

lemma generate_resume_text_skipped:
  "\<not> OPENAI_AVAILABLE env \<or> \<not> truthy (OPENAI_API_KEY env) \<Longrightarrow>
     generate_resume_text env data = (Inr (ustr_of (build_fallback_resume_text data)), [])"
  by (auto simp add: generate_resume_text_def)

lemma generate_resume_text_failed:
  assumes "OPENAI_AVAILABLE env" and "truthy (OPENAI_API_KEY env)"
    and "remote_attempt env (build_prompt_for_openai (json_dumps env) data) = Inl e"
  shows "generate_resume_text env data =
           (Inr (ustr_of (build_fallback_resume_text data)),
            [RemoteCall (build_prompt_for_openai (json_dumps env) data), Warning e])"
  using assms by (simp add: generate_resume_text_def)

lemma generate_resume_text_returns:
  "\<exists>text. fst (generate_resume_text env data) = Inr text"
  by (simp add: generate_resume_text_def Let_def split: sum.split)

lemma generate_resume_text_one_warning:
  "length (filter is_warning (snd (generate_resume_text env data))) \<le> 1"
  by (simp add: generate_resume_text_def Let_def split: sum.split)

text \<open>
  Claim C5.  When the client library or the credential is missing, no remote call is
  made and the result is the fallback text of the profile.  When the call is made and
  fails, because the call raises or because the content cannot be taken from its
  response, the result is again the fallback text of the same profile, after the one
  call and one warning that reports the exception.  In every case the function returns a
  text and raises nothing, and it shows at most one warning.
\<close>

theorem generate_resume_text_never_fatal:
  "(\<not> OPENAI_AVAILABLE env \<or> \<not> truthy (OPENAI_API_KEY env) \<longrightarrow>
      generate_resume_text env data = (Inr (ustr_of (build_fallback_resume_text data)), []))
   \<and> (OPENAI_AVAILABLE env \<and> truthy (OPENAI_API_KEY env)
        \<and> chat_completion env (build_prompt_for_openai (json_dumps env) data) = Inl e \<longrightarrow>
      generate_resume_text env data =
        (Inr (ustr_of (build_fallback_resume_text data)),
         [RemoteCall (build_prompt_for_openai (json_dumps env) data), Warning e]))
   \<and> (OPENAI_AVAILABLE env \<and> truthy (OPENAI_API_KEY env)
        \<and> chat_completion env (build_prompt_for_openai (json_dumps env) data) = Inr resp
        \<and> response_content resp = Inl e \<longrightarrow>
      generate_resume_text env data =
        (Inr (ustr_of (build_fallback_resume_text data)),
         [RemoteCall (build_prompt_for_openai (json_dumps env) data), Warning e]))
   \<and> (\<exists>text. fst (generate_resume_text env data) = Inr text)
   \<and> length (filter is_warning (snd (generate_resume_text env data))) \<le> 1
   \<and> (filter is_remote_call (snd (generate_resume_text env data)) \<noteq> [] \<longrightarrow>
        OPENAI_AVAILABLE env \<and> truthy (OPENAI_API_KEY env))"
proof (intro conjI impI)
  assume "\<not> OPENAI_AVAILABLE env \<or> \<not> truthy (OPENAI_API_KEY env)"
  then show "generate_resume_text env data
             = (Inr (ustr_of (build_fallback_resume_text data)), [])"
    by (rule generate_resume_text_skipped)
next
  assume a: "OPENAI_AVAILABLE env \<and> truthy (OPENAI_API_KEY env)
        \<and> chat_completion env (build_prompt_for_openai (json_dumps env) data) = Inl e"
  then have "remote_attempt env (build_prompt_for_openai (json_dumps env) data) = Inl e"
    by (simp add: remote_attempt_def and_then_def)
  with a show "generate_resume_text env data =
        (Inr (ustr_of (build_fallback_resume_text data)),
         [RemoteCall (build_prompt_for_openai (json_dumps env) data), Warning e])"
    by (simp add: generate_resume_text_failed)
next
  assume a: "OPENAI_AVAILABLE env \<and> truthy (OPENAI_API_KEY env)
        \<and> chat_completion env (build_prompt_for_openai (json_dumps env) data) = Inr resp
        \<and> response_content resp = Inl e"
  then have "remote_attempt env (build_prompt_for_openai (json_dumps env) data) = Inl e"
    by (simp add: remote_attempt_def and_then_def)
  with a show "generate_resume_text env data =
        (Inr (ustr_of (build_fallback_resume_text data)),
         [RemoteCall (build_prompt_for_openai (json_dumps env) data), Warning e])"
    by (simp add: generate_resume_text_failed)
next
  show "\<exists>text. fst (generate_resume_text env data) = Inr text"
    by (rule generate_resume_text_returns)
next
  show "length (filter is_warning (snd (generate_resume_text env data))) \<le> 1"
    by (rule generate_resume_text_one_warning)
next
  assume "filter is_remote_call (snd (generate_resume_text env data)) \<noteq> []"
  then show "OPENAI_AVAILABLE env" and "truthy (OPENAI_API_KEY env)"
    by (auto simp add: generate_resume_text_def Let_def split: if_splits)
qed

text \<open>
  The four environments on Jane Doe's profile: no call without the library or with an
  empty credential; a call, a warning and the fallback text when the service cannot be
  reached or answers without a choice.
\<close>

theorem generate_resume_text_never_fatal_witness:
  "generate_resume_text no_library_env jane_doe
     = (Inr (ustr_of (build_fallback_resume_text jane_doe)), [])
   \<and> generate_resume_text no_credential_env jane_doe
     = (Inr (ustr_of (build_fallback_resume_text jane_doe)), [])
   \<and> generate_resume_text unreachable_env jane_doe
     = (Inr (ustr_of (build_fallback_resume_text jane_doe)),
        [RemoteCall (build_prompt_for_openai (\<lambda>data. ''{}'') jane_doe),
         Warning (Raised ''APIConnectionError'')])
   \<and> generate_resume_text no_choices_env jane_doe
     = (Inr (ustr_of (build_fallback_resume_text jane_doe)),
        [RemoteCall (build_prompt_for_openai (\<lambda>data. ''{}'') jane_doe), Warning IndexError])"
proof -
  have "generate_resume_text no_library_env jane_doe
     = (Inr (ustr_of (build_fallback_resume_text jane_doe)), [])"
    using generate_resume_text_never_fatal [of no_library_env jane_doe]
    by (simp add: no_library_env_def)
  moreover have "generate_resume_text no_credential_env jane_doe
     = (Inr (ustr_of (build_fallback_resume_text jane_doe)), [])"
    using generate_resume_text_never_fatal [of no_credential_env jane_doe]
    by (simp add: no_credential_env_def truthy_def)
  moreover have "generate_resume_text unreachable_env jane_doe
     = (Inr (ustr_of (build_fallback_resume_text jane_doe)),
        [RemoteCall (build_prompt_for_openai (\<lambda>data. ''{}'') jane_doe),
         Warning (Raised ''APIConnectionError'')])"
    using generate_resume_text_never_fatal
      [where env = unreachable_env and data = jane_doe and e = "Raised ''APIConnectionError''"]
    by (simp add: unreachable_env_def truthy_def)
  moreover have "generate_resume_text no_choices_env jane_doe
     = (Inr (ustr_of (build_fallback_resume_text jane_doe)),
        [RemoteCall (build_prompt_for_openai (\<lambda>data. ''{}'') jane_doe), Warning IndexError])"
    using generate_resume_text_never_fatal
      [where env = no_choices_env and data = jane_doe and e = IndexError
         and resp = "PDict [(''choices'', PList [])]"]
    by (simp add: no_choices_env_def truthy_def response_content_def and_then_def)
  ultimately show ?thesis by blast
qed

section \<open>Rendering: the photo block\<close>

lemma photo_block_doc:
  "fst (photo_block env doc w) = doc
   \<or> fst (photo_block env doc w) = image (tmp_name env) 15 20 35 35 doc"
  by (cases "photo_fault env CreateTemp"; cases "photo_fault env WriteTemp";
      cases "photo_fault env FlushTemp"; cases "photo_fault env OpenImage";
      cases "photo_fault env ConvertRGB"; cases "photo_fault env SaveImage";
      cases "photo_fault env EmbedImage";
      simp add: photo_block_def photo_try_def)

text \<open>When no step raises, the photo is drawn and nothing is printed.\<close>

lemma photo_block_success:
  assumes "\<forall>step. photo_fault env step = None"
  shows "fst (photo_block env doc w) = image (tmp_name env) 15 20 35 35 doc"
    and "printed (snd (photo_block env doc w)) = printed w"
  using assms by (simp_all add: photo_block_def photo_try_def)

text \<open>A step that raises leaves the document without the photo and prints one line.\<close>

lemma photo_block_fault:
  assumes "photo_fault env step = Some e"
  shows "fst (photo_block env doc w) = doc"
    and "length (printed (snd (photo_block env doc w))) = length (printed w) + 1"
proof -
  from assms have some: "photo_fault env CreateTemp \<noteq> None \<or> photo_fault env WriteTemp \<noteq> None
      \<or> photo_fault env FlushTemp \<noteq> None \<or> photo_fault env OpenImage \<noteq> None
      \<or> photo_fault env ConvertRGB \<noteq> None \<or> photo_fault env SaveImage \<noteq> None
      \<or> photo_fault env EmbedImage \<noteq> None"
    by (cases step) auto
  then show "fst (photo_block env doc w) = doc"
    by (cases "photo_fault env CreateTemp"; cases "photo_fault env WriteTemp";
      cases "photo_fault env FlushTemp"; cases "photo_fault env OpenImage";
      cases "photo_fault env ConvertRGB"; cases "photo_fault env SaveImage";
      cases "photo_fault env EmbedImage";
      simp add: photo_block_def photo_try_def)
  from some show "length (printed (snd (photo_block env doc w))) = length (printed w) + 1"
    by (cases "photo_fault env CreateTemp"; cases "photo_fault env WriteTemp";
      cases "photo_fault env FlushTemp"; cases "photo_fault env OpenImage";
      cases "photo_fault env ConvertRGB"; cases "photo_fault env SaveImage";
      cases "photo_fault env EmbedImage";
      simp add: photo_block_def photo_try_def)
qed

text \<open>
  When the write and the flush of the uploaded bytes succeed, the block leaves the files
  as it found them, whatever else happens in it: the file it created is removed.
\<close>

lemma photo_block_removes_file:
  assumes "photo_fault env WriteTemp = None" and "photo_fault env FlushTemp = None"
    and "tmp_name env \<notin> files w"
  shows "files (snd (photo_block env doc w)) = files w"
  using assms
  by (cases "photo_fault env CreateTemp"; cases "photo_fault env WriteTemp";
      cases "photo_fault env FlushTemp"; cases "photo_fault env OpenImage";
      cases "photo_fault env ConvertRGB"; cases "photo_fault env SaveImage";
      cases "photo_fault env EmbedImage";
      simp add: photo_block_def photo_try_def)

text \<open>
  When the file has been created and the write or the flush raises, \<open>tmp_path\<close> is
  not bound and the file stays.
\<close>

lemma photo_block_leaves_file:
  assumes "photo_fault env CreateTemp = None"
    and "photo_fault env WriteTemp \<noteq> None \<or> photo_fault env FlushTemp \<noteq> None"
  shows "tmp_name env \<in> files (snd (photo_block env doc w))"
  using assms
  by (cases "photo_fault env CreateTemp"; cases "photo_fault env WriteTemp";
      cases "photo_fault env FlushTemp"; cases "photo_fault env OpenImage";
      cases "photo_fault env ConvertRGB"; cases "photo_fault env SaveImage";
      cases "photo_fault env EmbedImage";
      simp add: photo_block_def photo_try_def)

section \<open>Rendering: the heading, the contact line and the body\<close>

lemma draw_text_eq:
  "draw_text env t nm ci tpl doc =
     (case text_fault env (upper (get_or nm [])) of
        Some e \<Rightarrow> Inl e
      | None \<Rightarrow>
     case (if truthy ci then text_fault env (contact_line (get_or ci [])) else None) of
        Some e \<Rightarrow> Inl e
      | None \<Rightarrow>
     case text_fault env t of
        Some e \<Rightarrow> Inl e
      | None \<Rightarrow>
        Inr (doc\<lparr>cur_x := l_margin doc, cur_y := (if truthy ci then 53 else 45),
                  text_color := (if truthy ci then (0, 0, 0) else primary_color tpl),
                  cur_font := Some body_font,
                  items := items doc
                    @ [CellItem 60 25 0 10 (upper (get_or nm [])) (Some heading_font)
                         (primary_color tpl)]
                    @ (if truthy ci
                       then [CellItem 60 35 0 8 (contact_line (get_or ci [])) (Some body_font)
                               (0, 0, 0)]
                       else [])
                    @ [MultiCellItem (l_margin doc) (if truthy ci then 53 else 45) 0 7 t
                         (Some body_font)
                         (if truthy ci then (0, 0, 0) else primary_color tpl)]\<rparr>))"
  by (simp add: draw_text_def and_then_def cell_def multi_cell_def set_xy_def set_x_def
      set_y_def get_y_def set_text_color_def set_font_def Let_def split: option.split)


section \<open>Rendering: the page with and without a photo\<close>

lemma fresh_page_items:
  "items (add_page (set_auto_page_break True 15 (FPDF m))) = []"
  "l_margin (add_page (set_auto_page_break True 15 (FPDF m))) = m"
  by (simp_all add: add_page_def set_auto_page_break_def FPDF_def)

lemma create_pdf_page_no_photo:
  "fst (create_pdf_page env w t nm ci tpl None)
   = draw_text env t nm ci tpl (add_page (set_auto_page_break True 15 (FPDF (lib_margin env))))"
  by (simp add: create_pdf_page_def truthy_def Let_def)

lemma create_pdf_page_photo:
  "fst (create_pdf_page env w t nm ci tpl photo)
     = draw_text env t nm ci tpl (add_page (set_auto_page_break True 15 (FPDF (lib_margin env))))
   \<or> fst (create_pdf_page env w t nm ci tpl photo)
     = draw_text env t nm ci tpl
         (image (tmp_name env) 15 20 35 35
            (add_page (set_auto_page_break True 15 (FPDF (lib_margin env)))))"
  using photo_block_doc [of env "add_page (set_auto_page_break True 15 (FPDF (lib_margin env)))" w]
  by (auto simp add: create_pdf_page_def Let_def split: prod.split)

text \<open>
  Claim C9.  Take the same environment, world, body, name, contact dictionary and
  template, once with photo bytes and once without.  Either both calls raise the same
  exception, or both return a page, and then: the items of the first page that are not
  the photo are the items of the second, each with the same position, size, text, font
  and colour; the cursor, the colour and the font the pages end with are the same; and
  the first page is the second one, or the second one with the photo put in front at
  (15, 20), 35 wide and 35 high.
\<close>

theorem photo_leaves_text_placement:
  "map_sum id (\<lambda>d. filter (\<lambda>i. \<not> is_image i) (items d))
       (fst (create_pdf_page env w t nm ci tpl photo))
     = map_sum id items (fst (create_pdf_page env w t nm ci tpl None))
   \<and> map_sum id (\<lambda>d. (cur_x d, cur_y d, text_color d, cur_font d))
       (fst (create_pdf_page env w t nm ci tpl photo))
     = map_sum id (\<lambda>d. (cur_x d, cur_y d, text_color d, cur_font d))
       (fst (create_pdf_page env w t nm ci tpl None))
   \<and> (\<forall>d d'. fst (create_pdf_page env w t nm ci tpl photo) = Inr d
              \<and> fst (create_pdf_page env w t nm ci tpl None) = Inr d'
        \<longrightarrow> items d = items d' \<or> items d = ImageItem (tmp_name env) 15 20 35 35 # items d')"
proof -
  let ?page = "add_page (set_auto_page_break True 15 (FPDF (lib_margin env)))"
  note none = create_pdf_page_no_photo [of env w t nm ci tpl]
  from create_pdf_page_photo [of env w t nm ci tpl photo] show ?thesis
  proof
    assume "fst (create_pdf_page env w t nm ci tpl photo) = draw_text env t nm ci tpl ?page"
    then show ?thesis
      unfolding none
      by (simp add: draw_text_eq fresh_page_items split: option.split)
  next
    assume "fst (create_pdf_page env w t nm ci tpl photo)
            = draw_text env t nm ci tpl (image (tmp_name env) 15 20 35 35 ?page)"
    then show ?thesis
      unfolding none
      by (simp add: draw_text_eq fresh_page_items image_def split: option.split)
  qed
qed

text \<open>
  Jane Doe's page in the environment where every step succeeds, with a one-byte upload
  and without: apart from the photo, the heading at (60, 25) and the body at (10, 45).
\<close>

theorem photo_leaves_text_placement_witness:
  "filter (\<lambda>i. \<not> is_image i)
     (page_items (create_pdf_page plain_env empty_world dash_text (Some ''Jane Doe'') None
        ''Modern Blue'' (Some one_byte)))
   = [CellItem 60 25 0 10 (upper ''Jane Doe'') (Some heading_font) (0, 102, 204),
      MultiCellItem 10 45 0 7 dash_text (Some body_font) (0, 102, 204)]
   \<and> page_items (create_pdf_page plain_env empty_world dash_text (Some ''Jane Doe'') None
        ''Modern Blue'' None)
   = [CellItem 60 25 0 10 (upper ''Jane Doe'') (Some heading_font) (0, 102, 204),
      MultiCellItem 10 45 0 7 dash_text (Some body_font) (0, 102, 204)]"
proof -
  let ?with = "create_pdf_page plain_env empty_world dash_text (Some ''Jane Doe'') None
        ''Modern Blue'' (Some one_byte)"
  let ?without = "create_pdf_page plain_env empty_world dash_text (Some ''Jane Doe'') None
        ''Modern Blue'' None"
  let ?text = "[CellItem 60 25 0 10 (upper ''Jane Doe'') (Some heading_font) (0, 102, 204),
      MultiCellItem 10 45 0 7 dash_text (Some body_font) (0, 102, 204)]"
  have without: "map_sum id items (fst ?without) = Inr ?text"
    by (simp add: create_pdf_page_no_photo draw_text_eq fresh_page_items plain_env_def
        truthy_def get_or_def primary_color_def)
  have "map_sum id (\<lambda>d. filter (\<lambda>i. \<not> is_image i) (items d)) (fst ?with)
        = map_sum id items (fst ?without)"
    using photo_leaves_text_placement
      [of plain_env empty_world dash_text "Some ''Jane Doe''" None "''Modern Blue''"
        "Some one_byte"]
    by blast
  with without have "map_sum id (\<lambda>d. filter (\<lambda>i. \<not> is_image i) (items d)) (fst ?with)
        = Inr ?text"
    by simp
  then have "filter (\<lambda>i. \<not> is_image i) (page_items ?with) = ?text"
    by (cases "fst ?with") (simp_all add: page_items_def)
  moreover from without have "page_items ?without = ?text"
    by (cases "fst ?without") (simp_all add: page_items_def)
  ultimately show ?thesis by blast
qed

section \<open>Rendering: the contact line\<close>

lemma contact_line_fields:
  "contact_line d =
     join (ustr_of '' | '')
       (filter (\<lambda>v. v \<noteq> [])
          (map (\<lambda>k. case map_of d k of None \<Rightarrow> [] | Some v \<Rightarrow> v)
             [''city'', ''phone'', ''email'']))"
  by (cases "map_of d ''city''"; cases "map_of d ''phone''"; cases "map_of d ''email''";
      simp add: contact_line_def)

text \<open>
  Claim C8, as amended.  On a page that the function returns, the items that are not
  the photo are the heading, then the contact cell exactly when the contact dictionary
  is given and not empty, then the body.  The contact cell is at the heading's
  horizontal offset 60, one heading height lower, in the body font and in black, and
  its text is the non-empty values of city, phone and email, in this order, joined with
  \<open> | \<close>: the empty text when none of them is non-empty.  The body starts 18 below the
  heading's line when the contact cell is drawn and 10 below it otherwise.
\<close>

theorem contact_cell_rendering:
  "(fst (create_pdf_page env w t nm ci tpl photo) = Inr doc \<longrightarrow>
      filter (\<lambda>i. \<not> is_image i) (items doc) =
        [CellItem 60 25 0 10 (upper (get_or nm [])) (Some heading_font) (primary_color tpl)]
        @ (if truthy ci
           then [CellItem 60 35 0 8 (contact_line (get_or ci [])) (Some body_font) (0, 0, 0)]
           else [])
        @ [MultiCellItem (lib_margin env) (if truthy ci then 53 else 45) 0 7 t (Some body_font)
             (if truthy ci then (0, 0, 0) else primary_color tpl)])
   \<and> contact_line d =
       join (ustr_of '' | '')
         (filter (\<lambda>v. v \<noteq> [])
            (map (\<lambda>k. case map_of d k of None \<Rightarrow> [] | Some v \<Rightarrow> v)
               [''city'', ''phone'', ''email'']))"
proof (intro conjI impI)
  let ?page = "add_page (set_auto_page_break True 15 (FPDF (lib_margin env)))"
  assume r: "fst (create_pdf_page env w t nm ci tpl photo) = Inr doc"
  from create_pdf_page_photo [of env w t nm ci tpl photo]
  show "filter (\<lambda>i. \<not> is_image i) (items doc) =
        [CellItem 60 25 0 10 (upper (get_or nm [])) (Some heading_font) (primary_color tpl)]
        @ (if truthy ci
           then [CellItem 60 35 0 8 (contact_line (get_or ci [])) (Some body_font) (0, 0, 0)]
           else [])
        @ [MultiCellItem (lib_margin env) (if truthy ci then 53 else 45) 0 7 t (Some body_font)
             (if truthy ci then (0, 0, 0) else primary_color tpl)]"
  proof
    assume "fst (create_pdf_page env w t nm ci tpl photo) = draw_text env t nm ci tpl ?page"
    with r have "draw_text env t nm ci tpl ?page = Inr doc" by simp
    then show ?thesis
      by (auto simp add: draw_text_eq fresh_page_items split: option.splits if_splits)
  next
    assume "fst (create_pdf_page env w t nm ci tpl photo)
            = draw_text env t nm ci tpl (image (tmp_name env) 15 20 35 35 ?page)"
    with r have "draw_text env t nm ci tpl (image (tmp_name env) 15 20 35 35 ?page) = Inr doc"
      by simp
    then show ?thesis
      by (auto simp add: draw_text_eq fresh_page_items image_def
          split: option.splits if_splits)
  qed
next
  show "contact_line d =
       join (ustr_of '' | '')
         (filter (\<lambda>v. v \<noteq> [])
            (map (\<lambda>k. case map_of d k of None \<Rightarrow> [] | Some v \<Rightarrow> v)
               [''city'', ''phone'', ''email'']))"
    by (rule contact_line_fields)
qed

text \<open>
  With a city and an email the cell reads \<open>Leeds | jane@example.org\<close> at (60, 35) and
  the body starts at 53.
\<close>

theorem contact_cell_rendering_witness:
  "filter (\<lambda>i. \<not> is_image i)
     (page_items (create_pdf_page plain_env empty_world dash_text (Some ''Jane Doe'')
        (Some leeds_contact) ''Classic Gray'' None))
   = [CellItem 60 25 0 10 (upper ''Jane Doe'') (Some heading_font) (0, 0, 0),
      CellItem 60 35 0 8 (ustr_of ''Leeds | jane@example.org'') (Some body_font) (0, 0, 0),
      MultiCellItem 10 53 0 7 dash_text (Some body_font) (0, 0, 0)]"
proof -
  let ?r = "create_pdf_page plain_env empty_world dash_text (Some ''Jane Doe'')
      (Some leeds_contact) ''Classic Gray'' None"
  have "\<exists>doc. fst ?r = Inr doc"
    by (simp add: create_pdf_page_no_photo draw_text_eq plain_env_def)
  then obtain doc where d: "fst ?r = Inr doc" ..
  note rendering = contact_cell_rendering
    [where env = plain_env and w = empty_world and t = dash_text and nm = "Some ''Jane Doe''"
       and ci = "Some leeds_contact" and tpl = "''Classic Gray''" and photo = None
       and doc = doc and d = leeds_contact]
  from rendering have line: "contact_line leeds_contact = ustr_of ''Leeds | jane@example.org''"
    by (simp add: leeds_contact_def ustr_of_def)
  from rendering d have "filter (\<lambda>i. \<not> is_image i) (items doc) =
     [CellItem 60 25 0 10 (upper ''Jane Doe'') (Some heading_font) (0, 0, 0),
      CellItem 60 35 0 8 (contact_line leeds_contact) (Some body_font) (0, 0, 0),
      MultiCellItem 10 53 0 7 dash_text (Some body_font) (0, 0, 0)]"
    by (simp add: truthy_def get_or_def leeds_contact_def primary_color_def plain_env_def)
  with d line show ?thesis
    by (simp add: page_items_def)
qed

text \<open>
  Claim C8 as it is stated fails for the dictionary the caller builds when the three
  fields are left empty: no contact field is present, and a contact cell, with the empty
  text, is drawn at (60, 35); the body starts at 53, not at 45.
\<close>

theorem blank_contact_counterexample:
  "map_of blank_contact ''city'' = Some []
   \<and> map_of blank_contact ''phone'' = Some []
   \<and> map_of blank_contact ''email'' = Some []
   \<and> page_items (create_pdf_page plain_env empty_world dash_text (Some ''Jane Doe'')
        (Some blank_contact) ''Classic Gray'' None)
     = [CellItem 60 25 0 10 (upper ''Jane Doe'') (Some heading_font) (0, 0, 0),
        CellItem 60 35 0 8 [] (Some body_font) (0, 0, 0),
        MultiCellItem 10 53 0 7 dash_text (Some body_font) (0, 0, 0)]
   \<and> page_items (create_pdf_page plain_env empty_world dash_text (Some ''Jane Doe'')
        None ''Classic Gray'' None)
     = [CellItem 60 25 0 10 (upper ''Jane Doe'') (Some heading_font) (0, 0, 0),
        MultiCellItem 10 45 0 7 dash_text (Some body_font) (0, 0, 0)]"
  by (simp add: page_items_def create_pdf_page_no_photo draw_text_eq fresh_page_items
      plain_env_def blank_contact_def truthy_def get_or_def primary_color_def
      contact_line_def)

section \<open>Rendering: what leaves the function\<close>

lemma primary_color_cases:
  "primary_color tpl = (if tpl = ''Modern Blue'' then (0, 102, 204) else (0, 0, 0))"
  by (simp add: primary_color_def)

lemma upper_empty: "upper (get_or None []) = [] \<and> upper (get_or (Some []) []) = []"
  by (simp add: upper_def get_or_def)

lemma encode_latin1_ignore_drops:
  "encode_latin1_ignore (xs @ c # ys) =
     (if c < 256 then encode_latin1_ignore xs @ of_nat c # encode_latin1_ignore ys
      else encode_latin1_ignore xs @ encode_latin1_ignore ys)"
  by (simp add: encode_latin1_ignore_def)

text \<open>
  When the library accepts every text and serialises every page, the function returns
  bytes, for every body, name, contact dictionary, template and photo, and whatever
  happens in the photo block.
\<close>

lemma create_pdf_bytes_returns:
  assumes "\<forall>u. text_fault env u = None" and "\<forall>doc. \<exists>out. output_S env doc = Inr out"
  shows "\<exists>b. fst (create_pdf_bytes env w t nm ci tpl photo) = Inr b"
proof -
  let ?page = "add_page (set_auto_page_break True 15 (FPDF (lib_margin env)))"
  from assms(1) have "\<exists>doc. draw_text env t nm ci tpl ?page = Inr doc"
    and "\<exists>doc. draw_text env t nm ci tpl (image (tmp_name env) 15 20 35 35 ?page) = Inr doc"
    by (simp_all add: draw_text_eq)
  with create_pdf_page_photo [of env w t nm ci tpl photo]
  obtain doc where d: "fst (create_pdf_page env w t nm ci tpl photo) = Inr doc"
    by auto
  from assms(2) obtain out where o: "output_S env doc = Inr out" by blast
  from d o show ?thesis
    by (cases out; cases "create_pdf_page env w t nm ci tpl photo")
       (simp_all add: create_pdf_bytes_def and_then_def)
qed

text \<open>
  An exception of a library call outside the photo block leaves the function: when the
  library refuses the body, and when it fails to serialise the page.
\<close>

lemma create_pdf_bytes_propagates:
  assumes "text_fault env t = Some e"
    and "text_fault env (upper (get_or nm [])) = None"
    and "\<not> truthy ci"
  shows "fst (create_pdf_bytes env w t nm ci tpl photo) = Inl e"
proof -
  let ?page = "add_page (set_auto_page_break True 15 (FPDF (lib_margin env)))"
  from assms have "draw_text env t nm ci tpl ?page = Inl e"
    and "draw_text env t nm ci tpl (image (tmp_name env) 15 20 35 35 ?page) = Inl e"
    by (simp_all add: draw_text_eq)
  with create_pdf_page_photo [of env w t nm ci tpl photo]
  have "fst (create_pdf_page env w t nm ci tpl photo) = Inl e"
    by auto
  then show ?thesis
    by (cases "create_pdf_page env w t nm ci tpl photo")
       (simp add: create_pdf_bytes_def and_then_def)
qed

text \<open>
  Claim C6, at the input where the code leaves the claim.  The upload is one byte and
  the write of the bytes to the temporary file raises.  The exception is caught and
  printed, the page has no photo and the function returns the bytes of the document,
  but \<open>tmp_path\<close> was never bound and the temporary file is still there.  When the
  write succeeds and it is \<open>Image.open\<close> that raises, the file is removed.
\<close>

theorem write_failure_leaves_temp_file:
  "create_pdf_bytes disk_full_env empty_world dash_text (Some ''Jane Doe'') None
      ''Modern Blue'' (Some one_byte)
   = (Inr [74, 65, 78, 69, 32, 68, 79, 69, 65, 66],
      \<lparr>files = {''/tmp/tmp0001.png''}, printed = [Raised ''OSError'']\<rparr>)
   \<and> create_pdf_bytes undecodable_env empty_world dash_text (Some ''Jane Doe'') None
      ''Modern Blue'' (Some one_byte)
   = (Inr [74, 65, 78, 69, 32, 68, 79, 69, 65, 66],
      \<lparr>files = {}, printed = [Raised ''UnidentifiedImageError'']\<rparr>)"
  by (simp add: create_pdf_bytes_def create_pdf_page_def photo_block_def photo_try_def
      draw_text_eq disk_full_env_def undecodable_env_def plain_env_def empty_world_def
      one_byte_def dash_text_def truthy_def get_or_def and_then_def page_text_def
      encode_latin1_ignore_def upper_def upper_char_def fresh_page_items Let_def)

text \<open>
  Claim C7, at the input where the code leaves the claim.  The body has an en dash,
  U+2013.  When the library refuses to draw the text, and when it draws it and fails to
  serialise the page, the exception leaves \<open>create_pdf_bytes\<close>: the encoding step that
  drops such characters, line 250, is not reached.
\<close>

theorem unencodable_text_raises:
  "fst (create_pdf_bytes strict_font_env empty_world dash_text (Some ''Jane Doe'') None
      ''Modern Blue'' None) = Inl (Raised ''FPDFUnicodeEncodingException'')
   \<and> fst (create_pdf_bytes strict_output_env empty_world dash_text (Some ''Jane Doe'') None
      ''Modern Blue'' None) = Inl (Raised ''UnicodeEncodeError'')"
  by (simp add: create_pdf_bytes_def create_pdf_page_def
      draw_text_eq strict_font_env_def strict_output_env_def plain_env_def
      dash_text_def truthy_def get_or_def and_then_def page_text_def
      upper_def upper_char_def fresh_page_items Let_def)

end
